theory Spec2Isabelle
  imports Main
begin

section \<open>JavaScript values used by the email service\<close>

text \<open>
  The service of \<^verbatim>\<open>EmailService\<close> reads \<^verbatim>\<open>process.env\<close>, a
  dictionary from variable names to strings; a variable that is not set reads as
  \<^verbatim>\<open>undefined\<close>, written \<open>None\<close>. Strings are lists of bytes (UTF-8); the
  operations used here (\<^verbatim>\<open>includes\<close> with an ASCII needle, \<^verbatim>\<open>split(',')\<close>,
  template interpolation) agree on bytes and on UTF-16 code units.
\<close>

type_synonym env = "string \<rightharpoonup> string"

text \<open>Truthiness of a string-or-undefined value: \<^verbatim>\<open>undefined\<close> and the empty string are falsy.\<close>

definition truthy :: "string option \<Rightarrow> bool" where
  "truthy v = (case v of None \<Rightarrow> False | Some s \<Rightarrow> s \<noteq> [])"

text \<open>\<^verbatim>\<open>a && b\<close> and \<^verbatim>\<open>a || b\<close> on such values: the operand itself is the result.\<close>

definition js_and :: "string option \<Rightarrow> string option \<Rightarrow> string option" where
  "js_and a b = (if truthy a then b else a)"

definition js_or :: "string option \<Rightarrow> string option \<Rightarrow> string option" where
  "js_or a b = (if truthy a then a else b)"

text \<open>\<^verbatim>\<open>a || 'literal'\<close>: the right operand is a string, so the result is one.\<close>

definition or_literal :: "string option \<Rightarrow> string \<Rightarrow> string" where
  "or_literal a d = (case a of None \<Rightarrow> d | Some s \<Rightarrow> if s = [] then d else s)"

text \<open>
  \<^verbatim>\<open>s.includes(sub)\<close>: \<open>sub\<close> occurs in \<open>s\<close> as a contiguous run, case-sensitively.
\<close>

fun starts_with :: "'a list \<Rightarrow> 'a list \<Rightarrow> bool" where
  "starts_with s [] = True"
| "starts_with [] (c # cs) = False"
| "starts_with (x # xs) (c # cs) = (x = c \<and> starts_with xs cs)"

fun js_includes :: "'a list \<Rightarrow> 'a list \<Rightarrow> bool" where
  "js_includes [] sub = (sub = [])"
| "js_includes (x # xs) sub = (starts_with (x # xs) sub \<or> js_includes xs sub)"

text \<open>
  \<^verbatim>\<open>s.split(',')\<close> with a one-character separator: the fields between the separators,
  never an empty array. \<^verbatim>\<open>a[0]\<close> on the array is \<^verbatim>\<open>undefined\<close> when out of range.
\<close>

fun split_on :: "char \<Rightarrow> string \<Rightarrow> string list" where
  "split_on sep [] = [[]]"
| "split_on sep (c # cs) =
     (if c = sep then [] # split_on sep cs
      else (case split_on sep cs of
              [] \<Rightarrow> [[c]]
            | w # ws \<Rightarrow> (c # w) # ws))"

definition index0 :: "'a list \<Rightarrow> 'a option" where
  "index0 xs = (case xs of [] \<Rightarrow> None | x # _ \<Rightarrow> Some x)"

text \<open>
  Decimal rendering of a non-negative integer, as a template literal
  \<^verbatim>\<open>`${n}ms`\<close> renders a Number holding one.
\<close>

definition digit_char :: "nat \<Rightarrow> char" where
  "digit_char d = ''0123456789'' ! d"

fun decimal :: "nat \<Rightarrow> string" where
  "decimal n =
     (if n < 10 then [digit_char n]
      else decimal (n div 10) @ [digit_char (n mod 10)])"

declare decimal.simps [simp del]

subsection \<open>parseInt\<close>

text \<open>
  \<^verbatim>\<open>parseInt(string)\<close> without a radix: leading white space is skipped, then an
  optional sign, then an optional \<^verbatim>\<open>0x\<close> prefix (radix 16, else 10), then the longest
  run of digits of the radix; no digit gives \<^verbatim>\<open>NaN\<close>. The Number is kept as an
  exact integer: the rounding of JavaScript doubles above \<open>2 ^ 53\<close> and the sign of
  zero are not represented.
\<close>

datatype js_number = NaN | Num int

text \<open>White space and line terminators of ECMAScript, as UTF-8 byte sequences.\<close>

definition white_space :: "string list" where
  "white_space =
     [[CHR 0x09], [CHR 0x0A], [CHR 0x0B], [CHR 0x0C], [CHR 0x0D], [CHR 0x20],
      [CHR 0xC2, CHR 0xA0], [CHR 0xE1, CHR 0x9A, CHR 0x80],
      [CHR 0xE2, CHR 0x80, CHR 0x80], [CHR 0xE2, CHR 0x80, CHR 0x81],
      [CHR 0xE2, CHR 0x80, CHR 0x82], [CHR 0xE2, CHR 0x80, CHR 0x83],
      [CHR 0xE2, CHR 0x80, CHR 0x84], [CHR 0xE2, CHR 0x80, CHR 0x85],
      [CHR 0xE2, CHR 0x80, CHR 0x86], [CHR 0xE2, CHR 0x80, CHR 0x87],
      [CHR 0xE2, CHR 0x80, CHR 0x88], [CHR 0xE2, CHR 0x80, CHR 0x89],
      [CHR 0xE2, CHR 0x80, CHR 0x8A], [CHR 0xE2, CHR 0x80, CHR 0xA8],
      [CHR 0xE2, CHR 0x80, CHR 0xA9], [CHR 0xE2, CHR 0x80, CHR 0xAF],
      [CHR 0xE2, CHR 0x81, CHR 0x9F], [CHR 0xE3, CHR 0x80, CHR 0x80],
      [CHR 0xEF, CHR 0xBB, CHR 0xBF]]"

definition white_space_length :: "string \<Rightarrow> nat" where
  "white_space_length s =
     (case find (\<lambda>w. w \<noteq> [] \<and> starts_with s w) white_space of
        None \<Rightarrow> 0
      | Some w \<Rightarrow> length w)"

fun trimStart :: "string \<Rightarrow> string" where
  "trimStart [] = []"
| "trimStart (c # cs) =
     (if white_space_length (c # cs) = 0 then c # cs
      else trimStart (drop (white_space_length (c # cs)) (c # cs)))"

declare trimStart.simps [simp del]

definition digit_value :: "nat \<Rightarrow> char \<Rightarrow> nat option" where
  "digit_value R c =
     (let n = (of_char c :: nat);
          d = (if 48 \<le> n \<and> n \<le> 57 then Some (n - 48)
               else if 97 \<le> n \<and> n \<le> 122 then Some (n - 87)
               else if 65 \<le> n \<and> n \<le> 90 then Some (n - 55)
               else None)
      in case d of None \<Rightarrow> None | Some v \<Rightarrow> if v < R then Some v else None)"

definition digits_value :: "nat \<Rightarrow> string \<Rightarrow> nat" where
  "digits_value R z =
     foldl (\<lambda>a c. a * R + (case digit_value R c of None \<Rightarrow> 0 | Some v \<Rightarrow> v)) 0 z"

definition parseInt :: "string \<Rightarrow> js_number" where
  "parseInt str =
     (let s0 = trimStart str;
          neg = starts_with s0 ''-'';
          s1 = (if starts_with s0 ''+'' \<or> starts_with s0 ''-'' then drop 1 s0 else s0);
          hex = (starts_with s1 ''0x'' \<or> starts_with s1 ''0X'');
          R = (if hex then 16 else 10);
          s2 = (if hex then drop 2 s1 else s1);
          z = takeWhile (\<lambda>c. digit_value R c \<noteq> None) s2
      in if z = [] then NaN
         else Num ((if neg then - 1 else 1) * int (digits_value R z)))"

section \<open>Data of the email service\<close>

text \<open>\<^verbatim>\<open>interface EmailOptions\<close>, and the \<^verbatim>\<open>mailOptions\<close> object handed to the transport.\<close>

record EmailOptions =
  to :: string
  subject :: string
  html :: string

record MailOptions = EmailOptions +
  "from" :: "string option"

text \<open>The value every send returns: \<^verbatim>\<open>{ success: boolean; error?: string }\<close>.\<close>

record SendResult =
  success :: bool
  error :: "string option"

text \<open>
  The options object given to \<^verbatim>\<open>nodemailer.createTransport\<close>; \<^verbatim>\<open>host\<close> and the
  two fields of \<^verbatim>\<open>auth\<close> hold what \<^verbatim>\<open>process.env\<close> gave.
\<close>

record TransportOptions =
  host :: "string option"
  port :: js_number
  secure :: bool
  auth_user :: "string option"
  auth_pass :: "string option"
  connectionTimeout :: nat
  socketTimeout :: nat
  greetingTimeout :: nat

text \<open>
  \<^verbatim>\<open>class EmailService\<close>: the field \<^verbatim>\<open>transporter\<close> is \<^verbatim>\<open>null\<close> (\<open>None\<close>) or the
  client built from the options; \<^verbatim>\<open>EMAIL_TIMEOUT_MS\<close> is a read-only field.
\<close>

record EmailService =
  transporter :: "TransportOptions option"

definition EMAIL_TIMEOUT_MS :: nat where
  "EMAIL_TIMEOUT_MS = 5000"

text \<open>Calls of \<^verbatim>\<open>logger.info\<close>, \<^verbatim>\<open>logger.warn\<close> and \<^verbatim>\<open>logger.error\<close>: the level, the
  message and the fields of the metadata object (\<open>None\<close> for \<^verbatim>\<open>undefined\<close>).\<close>

datatype log_level = Info | Warn | Error

datatype log_event = Log log_level string "(string \<times> string option) list"

text \<open>
  A thrown or rejected value: an instance of \<^verbatim>\<open>Error\<close> with its \<^verbatim>\<open>message\<close>, or
  any other value (here with a textual payload, as a thrown string has).
\<close>

datatype js_value = ErrorInstance string | NonError string

text \<open>
  A promise is described by how it settles: fulfilled with a value or rejected with
  a reason, at a time in milliseconds after the call; \<open>None\<close> is a promise that never
  settles. The transport fulfils with the message identifier of its result
  (\<^verbatim>\<open>result?.messageId\<close>, possibly \<^verbatim>\<open>undefined\<close>).
\<close>

datatype settlement = Fulfilled "string option" | Rejected js_value

type_synonym promise = "(nat \<times> settlement) option"

text \<open>\<^verbatim>\<open>transporter.sendMail(mailOptions)\<close> throws at once or returns a promise.\<close>

datatype sendMail_result = Throws js_value | Returns promise

text \<open>
  \<^verbatim>\<open>Promise.race([p, q])\<close> settles as the first of the two to settle; the other one is
  left alone and its settlement is ignored. When both settle in the same
  millisecond the event loop decides which reaction runs first: \<open>first_on_tie\<close>
  says whether it is \<open>p\<close>.
\<close>

fun Promise_race :: "bool \<Rightarrow> promise \<Rightarrow> promise \<Rightarrow> promise" where
  "Promise_race first_on_tie None q = q"
| "Promise_race first_on_tie (Some a) None = Some a"
| "Promise_race first_on_tie (Some (t, s)) (Some (u, r)) =
     (if t < u \<or> (t = u \<and> first_on_tie) then Some (t, s) else Some (u, r))"

text \<open>
  One run of an \<^verbatim>\<open>async\<close> method: what its promise settles with (\<open>Inr\<close> the returned
  value, \<open>Inl\<close> an exception that escaped), the log events, the calls of
  \<^verbatim>\<open>sendMail\<close> made, and the time \<^verbatim>\<open>Date.now() - startTime\<close> at which it settled
  (synchronous code takes no time). A run that never settles is \<open>None\<close>.
\<close>

record Run =
  returned :: "js_value + SendResult"
  logged :: "log_event list"
  sendMail_calls :: "MailOptions list"
  elapsed :: nat

section \<open>The constructor\<close>

definition new_EmailService :: "env \<Rightarrow> EmailService \<times> log_event list" where
  "new_EmailService env =
     (if truthy (js_and (js_and (env ''SMTP_HOST'') (env ''SMTP_USER'')) (env ''SMTP_PASS''))
      then
        (\<lparr>transporter = Some
            \<lparr>host = env ''SMTP_HOST'',
             port = parseInt (or_literal (env ''SMTP_PORT'') ''587''),
             secure = (env ''SMTP_PORT'' = Some ''465''),
             auth_user = env ''SMTP_USER'',
             auth_pass = env ''SMTP_PASS'',
             connectionTimeout = EMAIL_TIMEOUT_MS,
             socketTimeout = EMAIL_TIMEOUT_MS,
             greetingTimeout = EMAIL_TIMEOUT_MS\<rparr>\<rparr>,
         [Log Info ''Email service initialized''
            [(''host'', env ''SMTP_HOST''),
             (''port'', Some (or_literal (env ''SMTP_PORT'') ''587''))]])
      else
        (\<lparr>transporter = None\<rparr>,
         [Log Warn ''Email service not configured - SMTP credentials missing'' []]))"

section \<open>sendEmail\<close>

definition timeout_message :: string where
  "timeout_message =
     ''Email send timeout after '' @ decimal EMAIL_TIMEOUT_MS @
     ''ms - SMTP server may be slow or unresponsive''"

definition timeoutPromise :: promise where
  "timeoutPromise = Some (EMAIL_TIMEOUT_MS, Rejected (ErrorInstance timeout_message))"

text \<open>The body of the \<^verbatim>\<open>try\<close> block: \<open>Inl\<close> is what the \<^verbatim>\<open>catch\<close> clause receives.\<close>

definition try_block ::
  "env \<Rightarrow> (MailOptions \<Rightarrow> sendMail_result) \<Rightarrow> bool \<Rightarrow> EmailOptions \<Rightarrow> Run option" where
  "try_block env sendMail first_on_tie options =
     (let mailOptions = \<lparr>to = to options, subject = subject options, html = html options,
                          from = env ''SMTP_USER''\<rparr>;
          attempt = Log Info ''Attempting to send email''
                      [(''to'', Some (to options)), (''subject'', Some (subject options))]
      in case sendMail mailOptions of
           Throws e \<Rightarrow>
             Some \<lparr>returned = Inl e, logged = [attempt],
                   sendMail_calls = [mailOptions], elapsed = 0\<rparr>
         | Returns sendPromise \<Rightarrow>
             (case Promise_race first_on_tie sendPromise timeoutPromise of
                None \<Rightarrow> None
              | Some (t, Rejected e) \<Rightarrow>
                  Some \<lparr>returned = Inl e, logged = [attempt],
                        sendMail_calls = [mailOptions], elapsed = t\<rparr>
              | Some (t, Fulfilled messageId) \<Rightarrow>
                  Some \<lparr>returned = Inr \<lparr>success = True, error = None\<rparr>,
                        logged = [attempt,
                          Log Info ''Email sent successfully''
                            [(''to'', Some (to options)), (''subject'', Some (subject options)),
                             (''duration'', Some (decimal t @ ''ms'')),
                             (''messageId'', messageId)]],
                        sendMail_calls = [mailOptions], elapsed = t\<rparr>))"

text \<open>\<^verbatim>\<open>error instanceof Error ? error.message : 'Unknown error'\<close>\<close>

definition errorMessage :: "js_value \<Rightarrow> string" where
  "errorMessage e = (case e of ErrorInstance m \<Rightarrow> m | NonError _ \<Rightarrow> ''Unknown error'')"

text \<open>The \<^verbatim>\<open>catch\<close> clause, entered with the thrown value at time \<open>elapsed run\<close>.\<close>

definition catch_block :: "EmailOptions \<Rightarrow> js_value \<Rightarrow> Run \<Rightarrow> Run" where
  "catch_block options e run =
     (let failure = Log Error ''Failed to send email''
                      [(''to'', Some (to options)), (''subject'', Some (subject options)),
                       (''error'', Some (errorMessage e)),
                       (''duration'', Some (decimal (elapsed run) @ ''ms''))]
      in run\<lparr>returned := Inr
               (if js_includes (errorMessage e) ''timeout''
                then \<lparr>success = False,
                      error = Some (''Email sending timed out or failed after '' @
                                    decimal EMAIL_TIMEOUT_MS @
                                    ''ms. The email may still be queued for delivery.'')\<rparr>
                else \<lparr>success = False, error = Some (errorMessage e)\<rparr>),
             logged := logged run @ [failure]\<rparr>)"

text \<open>
  \<^verbatim>\<open>sendEmail\<close>, given the environment at the time of the call, the behaviour of the
  transport (\<open>sendMail\<close>, by client and message) and the event loop's tie-break.
\<close>

definition sendEmail ::
  "env \<Rightarrow> (TransportOptions \<Rightarrow> MailOptions \<Rightarrow> sendMail_result) \<Rightarrow> bool \<Rightarrow>
   EmailService \<Rightarrow> EmailOptions \<Rightarrow> Run option" where
  "sendEmail env sendMail first_on_tie this options =
     (case transporter this of
        None \<Rightarrow>
          Some \<lparr>returned = Inr \<lparr>success = False, error = Some ''Email service not configured''\<rparr>,
                logged = [Log Warn ''Email service not configured - email not sent''
                            [(''to'', Some (to options))]],
                sendMail_calls = [], elapsed = 0\<rparr>
      | Some client \<Rightarrow>
          (case try_block env (sendMail client) first_on_tie options of
             None \<Rightarrow> None
           | Some run \<Rightarrow>
               (case returned run of
                  Inr result \<Rightarrow> Some run
                | Inl e \<Rightarrow> Some (catch_block options e run))))"

section \<open>sendBeauticianApprovalEmail\<close>

definition loginUrl :: "env \<Rightarrow> string" where
  "loginUrl env =
     or_literal
       (js_or (env ''FRONTEND_URL'')
          (case env ''REPLIT_DOMAINS'' of
             None \<Rightarrow> None
           | Some domains \<Rightarrow> index0 (split_on CHR '','' domains)))
       ''https://www.kosmospace.com''"

definition approval_subject :: string where
  "approval_subject = ''Welcome to Kosmospace - Your Application Has Been Approved!''"

text \<open>The template literal, cut at its four interpolations.\<close>

definition html_head :: string where
  "html_head = concat
    [''\<newline>'',
     ''      <!DOCTYPE html>\<newline>'',
     ''      <html>\<newline>'',
     ''        <head>\<newline>'',
     ''          <meta charset=\"UTF-8\">\<newline>'',
     ''          <style>\<newline>'',
     ''            body { font-family: Arial, sans-serif; line-height: 1.6; color: #333; }\<newline>'',
     ''            .container { max-width: 600px; margin: 0 auto; padding: 20px; }\<newline>'',
     ''            .header { background: linear-gradient(135deg, #667eea 0%, #764ba2 100%); color: white; padding: 30px; text-align: center; border-radius: 10px 10px 0 0; }\<newline>'',
     ''            .content { background: #f9f9f9; padding: 30px; border-radius: 0 0 10px 10px; }\<newline>'',
     ''            .credentials { background: white; padding: 20px; border-radius: 8px; margin: 20px 0; border-left: 4px solid #667eea; }\<newline>'',
     ''            .button { display: inline-block; background: #667eea; color: white; padding: 12px 30px; text-decoration: none; border-radius: 5px; margin: 20px 0; }\<newline>'',
     ''            .footer { text-align: center; margin-top: 30px; color: #666; font-size: 12px; }\<newline>'',
     ''          </style>\<newline>'',
     ''        </head>\<newline>'',
     ''        <body>\<newline>'',
     ''          <div class=\"container\">\<newline>'',
     ''            <div class=\"header\">\<newline>'',
     ''              <h1>Welcome to Kosmospace!</h1>\<newline>'',
     ''            </div>\<newline>'',
     ''            <div class=\"content\">\<newline>'',
     ''              <p>Dear '']"

definition html_after_firstName :: string where
  "html_after_firstName = concat
    ['',</p>\<newline>'',
     ''              \<newline>'',
     ''              <p>Great news! Your beautician application has been <strong>approved</strong>! '' @ [CHR 0xF0, CHR 0x9F, CHR 0x8E, CHR 0x89] @ ''</p>\<newline>'',
     ''              \<newline>'',
     ''              <p>You can now access your beautician dashboard to manage your services, view bookings, and start accepting customers.</p>\<newline>'',
     ''              \<newline>'',
     ''              <div class=\"credentials\">\<newline>'',
     ''                <h3>Your Login Credentials:</h3>\<newline>'',
     ''                <p><strong>Email:</strong> '']"

definition html_after_email :: string where
  "html_after_email = concat
    [''</p>\<newline>'',
     ''                <p><strong>Password:</strong> <code style=\"background: #f0f0f0; padding: 4px 8px; border-radius: 4px; font-size: 14px;\">'']"

definition html_after_password :: string where
  "html_after_password = concat
    [''</code></p>\<newline>'',
     ''                <p style=\"color: #d32f2f; font-size: 12px; margin-top: 10px;\">\<newline>'',
     ''                  '' @ [CHR 0xE2, CHR 0x9A, CHR 0xA0, CHR 0xEF, CHR 0xB8, CHR 0x8F] @ '' Please change your password after your first login for security.\<newline>'',
     ''                </p>\<newline>'',
     ''              </div>\<newline>'',
     ''              \<newline>'',
     ''              <div style=\"text-align: center;\">\<newline>'',
     ''                <a href=\"'']"

definition html_after_loginUrl :: string where
  "html_after_loginUrl = concat
    [''/login\" class=\"button\">Login to Dashboard</a>\<newline>'',
     ''              </div>\<newline>'',
     ''              \<newline>'',
     ''              <p>Once logged in, you can:</p>\<newline>'',
     ''              <ul>\<newline>'',
     ''                <li>Add and manage your services</li>\<newline>'',
     ''                <li>View and manage bookings</li>\<newline>'',
     ''                <li>Update your profile information</li>\<newline>'',
     ''                <li>Track your earnings</li>\<newline>'',
     ''              </ul>\<newline>'',
     ''              \<newline>'',
     ''              <p>If you have any questions, please don'' @ [CHR 0x27] @ ''t hesitate to contact our support team.</p>\<newline>'',
     ''              \<newline>'',
     ''              <p>Welcome aboard!</p>\<newline>'',
     ''              <p><strong>The Kosmospace Team</strong></p>\<newline>'',
     ''            </div>\<newline>'',
     ''            <div class=\"footer\">\<newline>'',
     ''              <p>This is an automated email. Please do not reply to this message.</p>\<newline>'',
     ''            </div>\<newline>'',
     ''          </div>\<newline>'',
     ''        </body>\<newline>'',
     ''      </html>\<newline>'',
     ''    '']"

definition approval_html :: "string \<Rightarrow> string \<Rightarrow> string \<Rightarrow> string \<Rightarrow> string" where
  "approval_html firstName email password url =
     html_head @ firstName @ html_after_firstName @ email @ html_after_email @
     password @ html_after_password @ url @ html_after_loginUrl"

definition sendBeauticianApprovalEmail ::
  "env \<Rightarrow> (TransportOptions \<Rightarrow> MailOptions \<Rightarrow> sendMail_result) \<Rightarrow> bool \<Rightarrow>
   EmailService \<Rightarrow> string \<Rightarrow> string \<Rightarrow> string \<Rightarrow> Run option" where
  "sendBeauticianApprovalEmail env sendMail first_on_tie this email firstName password =
     sendEmail env sendMail first_on_tie this
       \<lparr>to = email, subject = approval_subject,
        html = approval_html firstName email password (loginUrl env)\<rparr>"

section \<open>Test doubles\<close>

text \<open>
  The configuration of the specification's scenario, and transport stubs: one whose
  promise settles in a given way after a given delay, one whose promise never
  settles, and one that throws before returning a promise.
\<close>

definition scenario_env :: env where
  "scenario_env =
     [''SMTP_HOST'' \<mapsto> ''smtp.test'', ''SMTP_PORT'' \<mapsto> ''587'',
      ''SMTP_USER'' \<mapsto> ''a@test'', ''SMTP_PASS'' \<mapsto> ''x'']"

definition scenario_client :: TransportOptions where
  "scenario_client =
     \<lparr>host = Some ''smtp.test'', port = Num 587, secure = False,
      auth_user = Some ''a@test'', auth_pass = Some ''x'',
      connectionTimeout = 5000, socketTimeout = 5000, greetingTimeout = 5000\<rparr>"

definition scenario_options :: EmailOptions where
  "scenario_options = \<lparr>to = ''b@test'', subject = ''Hello'', html = ''<p>Hi</p>''\<rparr>"

definition stub_settles ::
  "nat \<Rightarrow> settlement \<Rightarrow> TransportOptions \<Rightarrow> MailOptions \<Rightarrow> sendMail_result" where
  "stub_settles t s client mail = Returns (Some (t, s))"

definition stub_never :: "TransportOptions \<Rightarrow> MailOptions \<Rightarrow> sendMail_result" where
  "stub_never client mail = Returns None"

definition stub_throws :: "js_value \<Rightarrow> TransportOptions \<Rightarrow> MailOptions \<Rightarrow> sendMail_result" where
  "stub_throws e client mail = Throws e"

section \<open>Facts about the helper functions\<close>

lemma starts_with_iff: "starts_with s w \<longleftrightarrow> (\<exists>post. s = w @ post)"
  by (induction s w rule: starts_with.induct) auto

lemma js_includes_iff: "js_includes s sub \<longleftrightarrow> (\<exists>pre post. s = pre @ sub @ post)"
proof (induction s)
  case Nil
  then show ?case by auto
next
  case (Cons x xs)
  show ?case
  proof
    assume "js_includes (x # xs) sub"
    then consider "starts_with (x # xs) sub" | "js_includes xs sub" by auto
    then show "\<exists>pre post. x # xs = pre @ sub @ post"
    proof cases
      case 1
      then obtain post where "x # xs = sub @ post" by (auto simp: starts_with_iff)
      then have "x # xs = [] @ sub @ post" by simp
      then show ?thesis by blast
    next
      case 2
      then obtain pre post where "xs = pre @ sub @ post" using Cons.IH by blast
      then have "x # xs = (x # pre) @ sub @ post" by simp
      then show ?thesis by blast
    qed
  next
    assume "\<exists>pre post. x # xs = pre @ sub @ post"
    then obtain pre post where eq: "x # xs = pre @ sub @ post" by blast
    show "js_includes (x # xs) sub"
    proof (cases pre)
      case Nil
      with eq have "starts_with (x # xs) sub" by (auto simp: starts_with_iff)
      then show ?thesis by simp
    next
      case (Cons p ps)
      with eq have "xs = ps @ sub @ post" by simp
      then have "js_includes xs sub" using Cons.IH by blast
      then show ?thesis by simp
    qed
  qed
qed

lemma js_includes_middle: "js_includes (pre @ sub @ post) sub"
  unfolding js_includes_iff by blast

lemma decimal_timeout: "decimal EMAIL_TIMEOUT_MS = ''5000''"
  by (simp add: EMAIL_TIMEOUT_MS_def decimal.simps digit_char_def)

lemma timeout_message_eq:
  "timeout_message =
     ''Email send timeout after 5000ms - SMTP server may be slow or unresponsive''"
  by (simp add: timeout_message_def decimal_timeout)

lemma timeout_message_includes_timeout: "js_includes timeout_message ''timeout''"
proof -
  have "js_includes (''Email send '' @ ''timeout'' @
          '' after 5000ms - SMTP server may be slow or unresponsive'') ''timeout''"
    by (rule js_includes_middle)
  then show ?thesis by (simp only: timeout_message_eq append.simps)
qed

lemma race_with_timer_settles:
  "\<exists>t s. Promise_race tie p timeoutPromise = Some (t, s)"
  by (cases p) (auto simp: timeoutPromise_def)

lemma race_timer_wins:
  assumes "p = None \<or> (\<exists>t s. p = Some (t, s) \<and> EMAIL_TIMEOUT_MS < t)"
  shows "Promise_race tie p timeoutPromise =
           Some (EMAIL_TIMEOUT_MS, Rejected (ErrorInstance timeout_message))"
  using assms by (auto simp: timeoutPromise_def)

lemma race_transport_wins:
  assumes "t < EMAIL_TIMEOUT_MS \<or> (t = EMAIL_TIMEOUT_MS \<and> tie)"
  shows "Promise_race tie (Some (t, s)) timeoutPromise = Some (t, s)"
  using assms by (auto simp: timeoutPromise_def)

lemma catch_block_returned:
  "returned (catch_block options e run) =
     Inr (if js_includes (errorMessage e) ''timeout''
          then \<lparr>success = False,
                error = Some ''Email sending timed out or failed after 5000ms. The email may still be queued for delivery.''\<rparr>
          else \<lparr>success = False, error = Some (errorMessage e)\<rparr>)"
  by (simp add: catch_block_def Let_def decimal_timeout)

section \<open>The unconfigured service\<close>

text \<open>
  C2. When no transport client was built (\<open>transporter\<close> is \<open>None\<close>), every call of
  \<open>sendEmail\<close>, whatever the request, the environment and the transport, returns
  \<^verbatim>\<open>{success: false, error: "Email service not configured"}\<close>, logs exactly one
  warning whose metadata holds the recipient, and makes no call of \<^verbatim>\<open>sendMail\<close>.
\<close>

theorem sendEmail_unconfigured:
  assumes "transporter this = None"
  shows "sendEmail env sendMail tie this options =
           Some \<lparr>returned = Inr \<lparr>success = False,
                                  error = Some ''Email service not configured''\<rparr>,
                 logged = [Log Warn ''Email service not configured - email not sent''
                             [(''to'', Some (to options))]],
                 sendMail_calls = [],
                 elapsed = 0\<rparr>"
  using assms by (simp add: sendEmail_def)

theorem sendEmail_unconfigured_witness:
  "transporter (fst (new_EmailService Map.empty)) = None \<and>
   sendEmail Map.empty (\<lambda>client mail. Returns (Some (3, Fulfilled None))) True
       (fst (new_EmailService Map.empty))
       \<lparr>to = ''b@test'', subject = ''Hello'', html = ''<p>Hi</p>''\<rparr> =
     Some \<lparr>returned = Inr \<lparr>success = False,
                            error = Some ''Email service not configured''\<rparr>,
           logged = [Log Warn ''Email service not configured - email not sent''
                       [(''to'', Some ''b@test'')]],
           sendMail_calls = [],
           elapsed = 0\<rparr>"
proof -
  have unconfigured: "transporter (fst (new_EmailService Map.empty)) = None"
    by (simp add: new_EmailService_def js_and_def truthy_def)
  show ?thesis
    using unconfigured
      sendEmail_unconfigured [OF unconfigured, of Map.empty
        "\<lambda>client mail. Returns (Some (3, Fulfilled None))" True
        "\<lparr>to = ''b@test'', subject = ''Hello'', html = ''<p>Hi</p>''\<rparr>"]
    by simp
qed

section \<open>No exception escapes sendEmail\<close>

lemma try_block_settles:
  "\<exists>run. try_block env send tie options = Some run"
proof (cases "send \<lparr>to = to options, subject = subject options, html = html options,
                     from = env ''SMTP_USER''\<rparr>")
  case (Throws e)
  then show ?thesis by (simp add: try_block_def)
next
  case (Returns p)
  obtain t s where "Promise_race tie p timeoutPromise = Some (t, s)"
    using race_with_timer_settles by blast
  with Returns show ?thesis
    by (cases s) (simp_all add: try_block_def)
qed

text \<open>
  C4. For every environment, request, service state and behaviour of the transport
  (a synchronous throw, a promise that fulfils, rejects or never settles, with
  either tie-break), the promise of \<open>sendEmail\<close> settles, and it is fulfilled with a
  \<^verbatim>\<open>{success, error?}\<close> value: it is never rejected with an exception. The logger
  is taken not to throw, and the \<^verbatim>\<open>message\<close> of an \<^verbatim>\<open>Error\<close> to be a string, as its
  type says.
\<close>

theorem sendEmail_never_throws:
  "\<exists>run result. sendEmail env sendMail tie this options = Some run \<and>
                 returned run = Inr result"
proof (cases "transporter this")
  case None
  then show ?thesis by (simp add: sendEmail_def)
next
  case (Some client)
  obtain run where run: "try_block env (sendMail client) tie options = Some run"
    using try_block_settles by blast
  show ?thesis
  proof (cases "returned run")
    case (Inl e)
    with Some run show ?thesis
      by (simp add: sendEmail_def catch_block_returned)
  next
    case (Inr result)
    with Some run show ?thesis by (simp add: sendEmail_def)
  qed
qed

section \<open>The scenario's service\<close>

lemma trimStart_587: "trimStart ''587'' = ''587''"
  by (simp add: trimStart.simps white_space_length_def white_space_def)

lemma parseInt_587: "parseInt ''587'' = Num 587"
proof -
  have "digit_value 10 CHR ''5'' = Some 5" "digit_value 10 CHR ''8'' = Some 8"
    "digit_value 10 CHR ''7'' = Some 7"
    by (simp_all add: digit_value_def)
  then show ?thesis
    by (simp add: parseInt_def trimStart_587 digits_value_def Let_def)
qed

lemma scenario_service:
  "new_EmailService scenario_env =
     (\<lparr>transporter = Some scenario_client\<rparr>,
      [Log Info ''Email service initialized''
         [(''host'', Some ''smtp.test''), (''port'', Some ''587'')]])"
  by (simp add: new_EmailService_def scenario_env_def scenario_client_def js_and_def
      truthy_def or_literal_def parseInt_587 EMAIL_TIMEOUT_MS_def)

lemma scenario_transporter:
  "transporter (fst (new_EmailService scenario_env)) = Some scenario_client"
  by (simp add: scenario_service)

lemma scenario_user: "scenario_env ''SMTP_USER'' = Some ''a@test''"
  by (simp add: scenario_env_def)

section \<open>The timeout race\<close>

text \<open>
  C1. For a configured service whose transport call returns a promise \<open>p\<close>,
  \<open>sendEmail\<close> races \<open>p\<close> against the timer of \<open>EMAIL_TIMEOUT_MS = 5000\<close> ms and the
  first to settle decides:
  \<^item> when \<open>p\<close> never settles or settles after more than 5000 ms, the call returns at
    5000 ms with \<^verbatim>\<open>success: false\<close> and an error text that names the 5000 ms bound
    and says that the email may still be queued for delivery;
  \<^item> when \<open>p\<close> is fulfilled before 5000 ms, the call returns \<^verbatim>\<open>{success: true}\<close> at
    that time;
  \<^item> when \<open>p\<close> is rejected before 5000 ms, the call returns at that time with the
    failure made from the rejection.
  In each case the one call of \<^verbatim>\<open>sendMail\<close> is all that was asked of the transport:
  nothing cancels it, and \<open>p\<close> settles (or not) as it would have.
\<close>

theorem sendEmail_timeout_race:
  assumes "transporter this = Some client"
    and "sendMail client \<lparr>to = to options, subject = subject options, html = html options,
                          from = env ''SMTP_USER''\<rparr> = Returns p"
  shows "EMAIL_TIMEOUT_MS = 5000 \<and>
    (p = None \<or> (\<exists>t s. p = Some (t, s) \<and> EMAIL_TIMEOUT_MS < t) \<longrightarrow>
       sendEmail env sendMail tie this options =
         Some \<lparr>returned = Inr \<lparr>success = False,
                  error = Some ''Email sending timed out or failed after 5000ms. The email may still be queued for delivery.''\<rparr>,
               logged = [Log Info ''Attempting to send email''
                           [(''to'', Some (to options)), (''subject'', Some (subject options))],
                         Log Error ''Failed to send email''
                           [(''to'', Some (to options)), (''subject'', Some (subject options)),
                            (''error'', Some ''Email send timeout after 5000ms - SMTP server may be slow or unresponsive''),
                            (''duration'', Some ''5000ms'')]],
               sendMail_calls = [\<lparr>to = to options, subject = subject options,
                                  html = html options, from = env ''SMTP_USER''\<rparr>],
               elapsed = 5000\<rparr>) \<and>
    (\<forall>t messageId. p = Some (t, Fulfilled messageId) \<and> t < EMAIL_TIMEOUT_MS \<longrightarrow>
       (\<exists>run. sendEmail env sendMail tie this options = Some run \<and>
              returned run = Inr \<lparr>success = True, error = None\<rparr> \<and>
              sendMail_calls run = [\<lparr>to = to options, subject = subject options,
                                      html = html options, from = env ''SMTP_USER''\<rparr>] \<and>
              elapsed run = t)) \<and>
    (\<forall>t e. p = Some (t, Rejected e) \<and> t < EMAIL_TIMEOUT_MS \<longrightarrow>
       (\<exists>run. sendEmail env sendMail tie this options = Some run \<and>
              returned run = Inr
                (if js_includes (errorMessage e) ''timeout''
                 then \<lparr>success = False,
                       error = Some ''Email sending timed out or failed after 5000ms. The email may still be queued for delivery.''\<rparr>
                 else \<lparr>success = False, error = Some (errorMessage e)\<rparr>) \<and>
              sendMail_calls run = [\<lparr>to = to options, subject = subject options,
                                      html = html options, from = env ''SMTP_USER''\<rparr>] \<and>
              elapsed run = t))"
proof (intro conjI impI allI)
  show "EMAIL_TIMEOUT_MS = 5000" by (simp add: EMAIL_TIMEOUT_MS_def)
next
  assume late: "p = None \<or> (\<exists>t s. p = Some (t, s) \<and> EMAIL_TIMEOUT_MS < t)"
  have race: "Promise_race tie p timeoutPromise =
                Some (EMAIL_TIMEOUT_MS, Rejected (ErrorInstance timeout_message))"
    using late by (rule race_timer_wins)
  have has_timeout: "js_includes timeout_message ''timeout''"
    by (rule timeout_message_includes_timeout)
  have ms: "decimal 5000 = ''5000''"
    using decimal_timeout by (simp add: EMAIL_TIMEOUT_MS_def)
  show "sendEmail env sendMail tie this options =
         Some \<lparr>returned = Inr \<lparr>success = False,
                  error = Some ''Email sending timed out or failed after 5000ms. The email may still be queued for delivery.''\<rparr>,
               logged = [Log Info ''Attempting to send email''
                           [(''to'', Some (to options)), (''subject'', Some (subject options))],
                         Log Error ''Failed to send email''
                           [(''to'', Some (to options)), (''subject'', Some (subject options)),
                            (''error'', Some ''Email send timeout after 5000ms - SMTP server may be slow or unresponsive''),
                            (''duration'', Some ''5000ms'')]],
               sendMail_calls = [\<lparr>to = to options, subject = subject options,
                                  html = html options, from = env ''SMTP_USER''\<rparr>],
               elapsed = 5000\<rparr>"
    using assms has_timeout
    by (simp add: sendEmail_def try_block_def race catch_block_def errorMessage_def ms
        timeout_message_eq EMAIL_TIMEOUT_MS_def)
next
  fix t messageId
  assume "p = Some (t, Fulfilled messageId) \<and> t < EMAIL_TIMEOUT_MS"
  then have p: "p = Some (t, Fulfilled messageId)" and "t < EMAIL_TIMEOUT_MS" by simp_all
  then have race: "Promise_race tie p timeoutPromise = Some (t, Fulfilled messageId)"
    by (simp add: race_transport_wins)
  show "\<exists>run. sendEmail env sendMail tie this options = Some run \<and>
              returned run = Inr \<lparr>success = True, error = None\<rparr> \<and>
              sendMail_calls run = [\<lparr>to = to options, subject = subject options,
                                      html = html options, from = env ''SMTP_USER''\<rparr>] \<and>
              elapsed run = t"
    using assms by (simp add: sendEmail_def try_block_def race)
next
  fix t e
  assume "p = Some (t, Rejected e) \<and> t < EMAIL_TIMEOUT_MS"
  then have p: "p = Some (t, Rejected e)" and "t < EMAIL_TIMEOUT_MS" by simp_all
  then have race: "Promise_race tie p timeoutPromise = Some (t, Rejected e)"
    by (simp add: race_transport_wins)
  have run: "sendEmail env sendMail tie this options =
               Some (catch_block options e
                 \<lparr>returned = Inl e,
                  logged = [Log Info ''Attempting to send email''
                              [(''to'', Some (to options)), (''subject'', Some (subject options))]],
                  sendMail_calls = [\<lparr>to = to options, subject = subject options,
                                      html = html options, from = env ''SMTP_USER''\<rparr>],
                  elapsed = t\<rparr>)"
    using assms by (simp add: sendEmail_def try_block_def race)
  show "\<exists>run. sendEmail env sendMail tie this options = Some run \<and>
              returned run = Inr
                (if js_includes (errorMessage e) ''timeout''
                 then \<lparr>success = False,
                       error = Some ''Email sending timed out or failed after 5000ms. The email may still be queued for delivery.''\<rparr>
                 else \<lparr>success = False, error = Some (errorMessage e)\<rparr>) \<and>
              sendMail_calls run = [\<lparr>to = to options, subject = subject options,
                                      html = html options, from = env ''SMTP_USER''\<rparr>] \<and>
              elapsed run = t"
    unfolding run by (simp add: catch_block_returned) (simp add: catch_block_def)
qed

theorem sendEmail_timeout_race_witness:
  "transporter (fst (new_EmailService scenario_env)) = Some scenario_client \<and>
   EMAIL_TIMEOUT_MS < 6000 \<and>
   sendEmail scenario_env (stub_settles 6000 (Fulfilled (Some ''<id@smtp.test>''))) True
       (fst (new_EmailService scenario_env)) scenario_options =
     Some \<lparr>returned = Inr \<lparr>success = False,
              error = Some ''Email sending timed out or failed after 5000ms. The email may still be queued for delivery.''\<rparr>,
           logged = [Log Info ''Attempting to send email''
                       [(''to'', Some ''b@test''), (''subject'', Some ''Hello'')],
                     Log Error ''Failed to send email''
                       [(''to'', Some ''b@test''), (''subject'', Some ''Hello''),
                        (''error'', Some ''Email send timeout after 5000ms - SMTP server may be slow or unresponsive''),
                        (''duration'', Some ''5000ms'')]],
           sendMail_calls = [\<lparr>to = ''b@test'', subject = ''Hello'', html = ''<p>Hi</p>'',
                              from = Some ''a@test''\<rparr>],
           elapsed = 5000\<rparr> \<and>
   map_option returned
     (sendEmail scenario_env stub_never False
        (fst (new_EmailService scenario_env)) scenario_options) =
     Some (Inr \<lparr>success = False,
              error = Some ''Email sending timed out or failed after 5000ms. The email may still be queued for delivery.''\<rparr>) \<and>
   (120::nat) < EMAIL_TIMEOUT_MS \<and>
   map_option returned
     (sendEmail scenario_env (stub_settles 120 (Fulfilled (Some ''<id@smtp.test>''))) False
        (fst (new_EmailService scenario_env)) scenario_options) =
     Some (Inr \<lparr>success = True, error = None\<rparr>) \<and>
   map_option elapsed
     (sendEmail scenario_env (stub_settles 120 (Rejected (ErrorInstance ''Mailbox full''))) False
        (fst (new_EmailService scenario_env)) scenario_options) =
     Some 120"
proof -
  note conf = scenario_transporter
  have slow: "stub_settles 6000 (Fulfilled (Some ''<id@smtp.test>'')) scenario_client
                \<lparr>to = to scenario_options, subject = subject scenario_options,
                 html = html scenario_options, from = scenario_env ''SMTP_USER''\<rparr> =
              Returns (Some (6000, Fulfilled (Some ''<id@smtp.test>'')))"
    by (simp add: stub_settles_def)
  have never: "stub_never scenario_client
                \<lparr>to = to scenario_options, subject = subject scenario_options,
                 html = html scenario_options, from = scenario_env ''SMTP_USER''\<rparr> =
              Returns None"
    by (simp add: stub_never_def)
  have fast: "stub_settles 120 (Fulfilled (Some ''<id@smtp.test>'')) scenario_client
                \<lparr>to = to scenario_options, subject = subject scenario_options,
                 html = html scenario_options, from = scenario_env ''SMTP_USER''\<rparr> =
              Returns (Some (120, Fulfilled (Some ''<id@smtp.test>'')))"
    by (simp add: stub_settles_def)
  have full: "stub_settles 120 (Rejected (ErrorInstance ''Mailbox full'')) scenario_client
                \<lparr>to = to scenario_options, subject = subject scenario_options,
                 html = html scenario_options, from = scenario_env ''SMTP_USER''\<rparr> =
              Returns (Some (120, Rejected (ErrorInstance ''Mailbox full'')))"
    by (simp add: stub_settles_def)
  have bound: "EMAIL_TIMEOUT_MS < 6000" "(120::nat) < EMAIL_TIMEOUT_MS"
    by (simp_all add: EMAIL_TIMEOUT_MS_def)
  have 1: "sendEmail scenario_env (stub_settles 6000 (Fulfilled (Some ''<id@smtp.test>''))) True
       (fst (new_EmailService scenario_env)) scenario_options =
     Some \<lparr>returned = Inr \<lparr>success = False,
              error = Some ''Email sending timed out or failed after 5000ms. The email may still be queued for delivery.''\<rparr>,
           logged = [Log Info ''Attempting to send email''
                       [(''to'', Some ''b@test''), (''subject'', Some ''Hello'')],
                     Log Error ''Failed to send email''
                       [(''to'', Some ''b@test''), (''subject'', Some ''Hello''),
                        (''error'', Some ''Email send timeout after 5000ms - SMTP server may be slow or unresponsive''),
                        (''duration'', Some ''5000ms'')]],
           sendMail_calls = [\<lparr>to = ''b@test'', subject = ''Hello'', html = ''<p>Hi</p>'',
                              from = Some ''a@test''\<rparr>],
           elapsed = 5000\<rparr>"
    using sendEmail_timeout_race [where sendMail = "stub_settles 6000 (Fulfilled (Some ''<id@smtp.test>''))"
        and env = scenario_env and options = scenario_options and tie = True, OF conf slow] bound
    by (simp add: scenario_options_def scenario_user)
  have 2: "map_option returned
     (sendEmail scenario_env stub_never False
        (fst (new_EmailService scenario_env)) scenario_options) =
     Some (Inr \<lparr>success = False,
              error = Some ''Email sending timed out or failed after 5000ms. The email may still be queued for delivery.''\<rparr>)"
    using sendEmail_timeout_race [where sendMail = stub_never
        and env = scenario_env and options = scenario_options and tie = False, OF conf never]
    by simp
  have 3: "map_option returned
     (sendEmail scenario_env (stub_settles 120 (Fulfilled (Some ''<id@smtp.test>''))) False
        (fst (new_EmailService scenario_env)) scenario_options) =
     Some (Inr \<lparr>success = True, error = None\<rparr>)"
    using sendEmail_timeout_race [where sendMail = "stub_settles 120 (Fulfilled (Some ''<id@smtp.test>''))"
        and env = scenario_env and options = scenario_options and tie = False, OF conf fast] bound
    by auto
  have 4: "map_option elapsed
     (sendEmail scenario_env (stub_settles 120 (Rejected (ErrorInstance ''Mailbox full''))) False
        (fst (new_EmailService scenario_env)) scenario_options) =
     Some 120"
    using sendEmail_timeout_race [where sendMail = "stub_settles 120 (Rejected (ErrorInstance ''Mailbox full''))"
        and env = scenario_env and options = scenario_options and tie = False, OF conf full] bound
    by auto
  from conf bound 1 2 3 4 show ?thesis by simp
qed

section \<open>Failures of the transport\<close>

lemma sendEmail_caught:
  assumes "transporter this = Some client"
    and "sendMail client \<lparr>to = to options, subject = subject options, html = html options,
                          from = env ''SMTP_USER''\<rparr> = Throws e \<or>
         (\<exists>t. sendMail client \<lparr>to = to options, subject = subject options,
                                html = html options, from = env ''SMTP_USER''\<rparr> =
                Returns (Some (t, Rejected e)) \<and>
              (t < EMAIL_TIMEOUT_MS \<or> (t = EMAIL_TIMEOUT_MS \<and> tie)))"
  shows "\<exists>run. sendEmail env sendMail tie this options = Some (catch_block options e run)"
  using assms(2)
proof
  assume "sendMail client \<lparr>to = to options, subject = subject options, html = html options,
                           from = env ''SMTP_USER''\<rparr> = Throws e"
  with assms(1) have "sendEmail env sendMail tie this options =
      Some (catch_block options e
        \<lparr>returned = Inl e,
         logged = [Log Info ''Attempting to send email''
                     [(''to'', Some (to options)), (''subject'', Some (subject options))]],
         sendMail_calls = [\<lparr>to = to options, subject = subject options,
                             html = html options, from = env ''SMTP_USER''\<rparr>],
         elapsed = 0\<rparr>)"
    by (simp add: sendEmail_def try_block_def)
  then show ?thesis by blast
next
  assume "\<exists>t. sendMail client \<lparr>to = to options, subject = subject options,
                                html = html options, from = env ''SMTP_USER''\<rparr> =
                Returns (Some (t, Rejected e)) \<and>
              (t < EMAIL_TIMEOUT_MS \<or> (t = EMAIL_TIMEOUT_MS \<and> tie))"
  then obtain t where
    call: "sendMail client \<lparr>to = to options, subject = subject options,
                            html = html options, from = env ''SMTP_USER''\<rparr> =
             Returns (Some (t, Rejected e))"
    and first: "t < EMAIL_TIMEOUT_MS \<or> (t = EMAIL_TIMEOUT_MS \<and> tie)"
    by blast
  have "Promise_race tie (Some (t, Rejected e)) timeoutPromise = Some (t, Rejected e)"
    using first by (rule race_transport_wins)
  with assms(1) call have "sendEmail env sendMail tie this options =
      Some (catch_block options e
        \<lparr>returned = Inl e,
         logged = [Log Info ''Attempting to send email''
                     [(''to'', Some (to options)), (''subject'', Some (subject options))]],
         sendMail_calls = [\<lparr>to = to options, subject = subject options,
                             html = html options, from = env ''SMTP_USER''\<rparr>],
         elapsed = t\<rparr>)"
    by (simp add: sendEmail_def try_block_def)
  then show ?thesis by blast
qed

lemma late_rejection_is_timeout:
  assumes "EMAIL_TIMEOUT_MS < t"
  shows "map_option returned
           (sendEmail scenario_env (stub_settles t (Rejected e)) tie
              (fst (new_EmailService scenario_env)) scenario_options) =
         Some (Inr \<lparr>success = False,
                 error = Some ''Email sending timed out or failed after 5000ms. The email may still be queued for delivery.''\<rparr>)"
proof -
  have race: "Promise_race tie (Some (t, Rejected e)) timeoutPromise =
                Some (EMAIL_TIMEOUT_MS, Rejected (ErrorInstance timeout_message))"
    using assms by (simp add: race_timer_wins)
  have "js_includes timeout_message ''timeout''"
    by (rule timeout_message_includes_timeout)
  then show ?thesis
    by (simp add: sendEmail_def scenario_transporter try_block_def stub_settles_def race
        catch_block_returned errorMessage_def)
qed

text \<open>
  C3 (as stated it fails at a message that contains \<^verbatim>\<open>timeout\<close>; the statement
  below says nothing about such messages). What holds: for a configured service,
  when the transport fails with an \<^verbatim>\<open>Error\<close> of message \<open>m\<close>, by throwing or by a
  rejection that settles before the 5000 ms timer (or with it, the tie going to the
  transport), and \<open>m\<close> does not contain the substring \<^verbatim>\<open>timeout\<close>, then \<open>sendEmail\<close>
  returns \<^verbatim>\<open>{success: false, error: m}\<close> with \<open>m\<close> unchanged; so a rejection with
  message \<^verbatim>\<open>Invalid recipient\<close> gives \<^verbatim>\<open>{success: false, error: "Invalid recipient"}\<close>.
\<close>

theorem sendEmail_transport_error_verbatim:
  assumes "transporter this = Some client"
    and "sendMail client \<lparr>to = to options, subject = subject options, html = html options,
                          from = env ''SMTP_USER''\<rparr> = Throws (ErrorInstance m) \<or>
         (\<exists>t. sendMail client \<lparr>to = to options, subject = subject options,
                                html = html options, from = env ''SMTP_USER''\<rparr> =
                Returns (Some (t, Rejected (ErrorInstance m))) \<and>
              (t < EMAIL_TIMEOUT_MS \<or> (t = EMAIL_TIMEOUT_MS \<and> tie)))"
    and "\<not> js_includes m ''timeout''"
  shows "\<exists>run. sendEmail env sendMail tie this options = Some run \<and>
               returned run = Inr \<lparr>success = False, error = Some m\<rparr>"
proof -
  obtain run where
    "sendEmail env sendMail tie this options =
       Some (catch_block options (ErrorInstance m) run)"
    using sendEmail_caught
      [where sendMail = sendMail and env = env and options = options, OF assms(1) assms(2)]
    by blast
  with assms(3) show ?thesis
    by (simp add: catch_block_returned errorMessage_def)
qed

theorem sendEmail_transport_error_verbatim_witness:
  "transporter (fst (new_EmailService scenario_env)) = Some scenario_client \<and>
   (0::nat) < EMAIL_TIMEOUT_MS \<and>
   \<not> js_includes ''Invalid recipient'' ''timeout'' \<and>
   map_option returned
     (sendEmail scenario_env (stub_settles 0 (Rejected (ErrorInstance ''Invalid recipient'')))
        True (fst (new_EmailService scenario_env)) scenario_options) =
     Some (Inr \<lparr>success = False, error = Some ''Invalid recipient''\<rparr>)"
proof -
  have bound: "(0::nat) < EMAIL_TIMEOUT_MS" by (simp add: EMAIL_TIMEOUT_MS_def)
  have call: "stub_settles 0 (Rejected (ErrorInstance ''Invalid recipient'')) scenario_client
           \<lparr>to = to scenario_options, subject = subject scenario_options,
            html = html scenario_options, from = scenario_env ''SMTP_USER''\<rparr> =
         Throws (ErrorInstance ''Invalid recipient'') \<or>
         (\<exists>t. stub_settles 0 (Rejected (ErrorInstance ''Invalid recipient'')) scenario_client
                 \<lparr>to = to scenario_options, subject = subject scenario_options,
                  html = html scenario_options, from = scenario_env ''SMTP_USER''\<rparr> =
                Returns (Some (t, Rejected (ErrorInstance ''Invalid recipient''))) \<and>
              (t < EMAIL_TIMEOUT_MS \<or> (t = EMAIL_TIMEOUT_MS \<and> True)))"
    using bound by (simp add: stub_settles_def)
  have other: "\<not> js_includes ''Invalid recipient'' ''timeout''" by simp
  have "\<exists>run. sendEmail scenario_env
                 (stub_settles 0 (Rejected (ErrorInstance ''Invalid recipient''))) True
                 (fst (new_EmailService scenario_env)) scenario_options = Some run \<and>
               returned run = Inr \<lparr>success = False, error = Some ''Invalid recipient''\<rparr>"
    by (rule sendEmail_transport_error_verbatim
        [where sendMail = "stub_settles 0 (Rejected (ErrorInstance ''Invalid recipient''))"
           and env = scenario_env and options = scenario_options and tie = True,
         OF scenario_transporter call other])
  then have "map_option returned
     (sendEmail scenario_env (stub_settles 0 (Rejected (ErrorInstance ''Invalid recipient'')))
        True (fst (new_EmailService scenario_env)) scenario_options) =
     Some (Inr \<lparr>success = False, error = Some ''Invalid recipient''\<rparr>)"
    by auto
  with scenario_transporter bound other show ?thesis by simp
qed

theorem sendEmail_transport_error_counterexample:
  "map_option returned
     (sendEmail scenario_env
        (stub_settles 10 (Rejected (ErrorInstance ''Invalid recipient: timeout@example.com'')))
        True (fst (new_EmailService scenario_env)) scenario_options) =
     Some (Inr \<lparr>success = False,
             error = Some ''Email sending timed out or failed after 5000ms. The email may still be queued for delivery.''\<rparr>) \<and>
   map_option returned
     (sendEmail scenario_env
        (stub_settles 10 (Rejected (ErrorInstance ''Invalid recipient: timeout@example.com'')))
        True (fst (new_EmailService scenario_env)) scenario_options) \<noteq>
     Some (Inr \<lparr>success = False,
             error = Some ''Invalid recipient: timeout@example.com''\<rparr>)"
proof -
  have race: "Promise_race True
                (Some (10, Rejected (ErrorInstance ''Invalid recipient: timeout@example.com'')))
                timeoutPromise =
              Some (10, Rejected (ErrorInstance ''Invalid recipient: timeout@example.com''))"
    by (simp add: timeoutPromise_def EMAIL_TIMEOUT_MS_def)
  have "js_includes ''Invalid recipient: timeout@example.com'' ''timeout''"
    using js_includes_middle [of "''Invalid recipient: ''" "''timeout''" "''@example.com''"]
    by simp
  then show ?thesis
    by (simp add: sendEmail_def scenario_transporter try_block_def stub_settles_def race
        catch_block_returned errorMessage_def)
qed

text \<open>
  C9 (as stated it fails: a rejection that arrives after the timer has fired is
  ignored, and the timed-out text is returned). What holds: for a configured
  service, when the transport fails with a value that is not an \<^verbatim>\<open>Error\<close>, by
  throwing or by a rejection that settles before the 5000 ms timer (or with it, the
  tie going to the transport), \<open>sendEmail\<close> returns
  \<^verbatim>\<open>{success: false, error: "Unknown error"}\<close>, whatever the value holds.
\<close>

theorem sendEmail_non_error_is_unknown:
  assumes "transporter this = Some client"
    and "sendMail client \<lparr>to = to options, subject = subject options, html = html options,
                          from = env ''SMTP_USER''\<rparr> = Throws (NonError v) \<or>
         (\<exists>t. sendMail client \<lparr>to = to options, subject = subject options,
                                html = html options, from = env ''SMTP_USER''\<rparr> =
                Returns (Some (t, Rejected (NonError v))) \<and>
              (t < EMAIL_TIMEOUT_MS \<or> (t = EMAIL_TIMEOUT_MS \<and> tie)))"
  shows "\<exists>run. sendEmail env sendMail tie this options = Some run \<and>
               returned run = Inr \<lparr>success = False, error = Some ''Unknown error''\<rparr>"
proof -
  obtain run where
    "sendEmail env sendMail tie this options = Some (catch_block options (NonError v) run)"
    using sendEmail_caught
      [where sendMail = sendMail and env = env and options = options, OF assms(1) assms(2)]
    by blast
  moreover have "\<not> js_includes ''Unknown error'' ''timeout''" by simp
  ultimately show ?thesis
    by (simp add: catch_block_returned errorMessage_def)
qed

theorem sendEmail_non_error_is_unknown_witness:
  "transporter (fst (new_EmailService scenario_env)) = Some scenario_client \<and>
   map_option returned
     (sendEmail scenario_env (stub_throws (NonError ''Invalid recipient''))
        False (fst (new_EmailService scenario_env)) scenario_options) =
     Some (Inr \<lparr>success = False, error = Some ''Unknown error''\<rparr>)"
proof -
  have call: "stub_throws (NonError ''Invalid recipient'') scenario_client
           \<lparr>to = to scenario_options, subject = subject scenario_options,
            html = html scenario_options, from = scenario_env ''SMTP_USER''\<rparr> =
         Throws (NonError ''Invalid recipient'') \<or>
         (\<exists>t. stub_throws (NonError ''Invalid recipient'') scenario_client
                 \<lparr>to = to scenario_options, subject = subject scenario_options,
                  html = html scenario_options, from = scenario_env ''SMTP_USER''\<rparr> =
                Returns (Some (t, Rejected (NonError ''Invalid recipient''))) \<and>
              (t < EMAIL_TIMEOUT_MS \<or> (t = EMAIL_TIMEOUT_MS \<and> False)))"
    by (simp add: stub_throws_def)
  have "\<exists>run. sendEmail scenario_env (stub_throws (NonError ''Invalid recipient'')) False
                 (fst (new_EmailService scenario_env)) scenario_options = Some run \<and>
               returned run = Inr \<lparr>success = False, error = Some ''Unknown error''\<rparr>"
    by (rule sendEmail_non_error_is_unknown
        [where sendMail = "stub_throws (NonError ''Invalid recipient'')"
           and env = scenario_env and options = scenario_options and tie = False,
         OF scenario_transporter call])
  then have "map_option returned
     (sendEmail scenario_env (stub_throws (NonError ''Invalid recipient''))
        False (fst (new_EmailService scenario_env)) scenario_options) =
     Some (Inr \<lparr>success = False, error = Some ''Unknown error''\<rparr>)"
    by auto
  with scenario_transporter show ?thesis by simp
qed

theorem sendEmail_non_error_counterexample:
  "map_option returned
     (sendEmail scenario_env (stub_settles 6000 (Rejected (NonError ''Invalid recipient'')))
        True (fst (new_EmailService scenario_env)) scenario_options) =
     Some (Inr \<lparr>success = False,
             error = Some ''Email sending timed out or failed after 5000ms. The email may still be queued for delivery.''\<rparr>) \<and>
   map_option returned
     (sendEmail scenario_env (stub_settles 6000 (Rejected (NonError ''Invalid recipient'')))
        True (fst (new_EmailService scenario_env)) scenario_options) \<noteq>
     Some (Inr \<lparr>success = False, error = Some ''Unknown error''\<rparr>)"
proof -
  have "EMAIL_TIMEOUT_MS < 6000" by (simp add: EMAIL_TIMEOUT_MS_def)
  then show ?thesis
    by (simp add: late_rejection_is_timeout)
qed

section \<open>Construction\<close>

lemma configured_iff:
  "truthy (js_and (js_and (env ''SMTP_HOST'') (env ''SMTP_USER'')) (env ''SMTP_PASS'')) \<longleftrightarrow>
   truthy (env ''SMTP_HOST'') \<and> truthy (env ''SMTP_USER'') \<and> truthy (env ''SMTP_PASS'')"
  by (auto simp: js_and_def)

text \<open>
  C5 (as stated it fails: a variable that is present but empty leaves the service
  unconfigured). What holds: the constructor is a total function of the
  environment, so it completes for every environment, and
  \<^item> a transport client is built exactly when \<^verbatim>\<open>SMTP_HOST\<close>, \<^verbatim>\<open>SMTP_USER\<close> and
    \<^verbatim>\<open>SMTP_PASS\<close> are all set to non-empty strings; the client then holds all three
    and one info event is logged;
  \<^item> otherwise, when any of them is unset or empty, \<open>transporter\<close> stays \<open>None\<close> and
    one warning is logged; there is no state in between.
\<close>

theorem new_EmailService_binary:
  "(transporter (fst (new_EmailService env)) \<noteq> None) =
     (truthy (env ''SMTP_HOST'') \<and> truthy (env ''SMTP_USER'') \<and> truthy (env ''SMTP_PASS'')) \<and>
   (truthy (env ''SMTP_HOST'') \<and> truthy (env ''SMTP_USER'') \<and> truthy (env ''SMTP_PASS'') \<longrightarrow>
      (\<exists>client. new_EmailService env =
           (\<lparr>transporter = Some client\<rparr>,
            [Log Info ''Email service initialized''
               [(''host'', env ''SMTP_HOST''),
                (''port'', Some (or_literal (env ''SMTP_PORT'') ''587''))]]) \<and>
         host client = env ''SMTP_HOST'' \<and>
         auth_user client = env ''SMTP_USER'' \<and>
         auth_pass client = env ''SMTP_PASS'')) \<and>
   (\<not> (truthy (env ''SMTP_HOST'') \<and> truthy (env ''SMTP_USER'') \<and> truthy (env ''SMTP_PASS'')) \<longrightarrow>
      new_EmailService env =
        (\<lparr>transporter = None\<rparr>,
         [Log Warn ''Email service not configured - SMTP credentials missing'' []]))"
  unfolding new_EmailService_def configured_iff by simp

theorem new_EmailService_binary_witness:
  "truthy (scenario_env ''SMTP_HOST'') \<and> truthy (scenario_env ''SMTP_USER'') \<and>
   truthy (scenario_env ''SMTP_PASS'') \<and>
   transporter (fst (new_EmailService scenario_env)) \<noteq> None \<and>
   \<not> truthy ((scenario_env(''SMTP_PASS'' := None)) ''SMTP_PASS'') \<and>
   new_EmailService (scenario_env(''SMTP_PASS'' := None)) =
     (\<lparr>transporter = None\<rparr>,
      [Log Warn ''Email service not configured - SMTP credentials missing'' []])"
proof -
  have present: "truthy (scenario_env ''SMTP_HOST'')" "truthy (scenario_env ''SMTP_USER'')"
    "truthy (scenario_env ''SMTP_PASS'')"
    by (simp_all add: scenario_env_def truthy_def)
  have missing: "\<not> truthy ((scenario_env(''SMTP_PASS'' := None)) ''SMTP_PASS'')"
    by (simp add: truthy_def)
  from present new_EmailService_binary [of scenario_env]
  have built: "transporter (fst (new_EmailService scenario_env)) \<noteq> None"
    by blast
  from missing new_EmailService_binary [of "scenario_env(''SMTP_PASS'' := None)"]
  have "new_EmailService (scenario_env(''SMTP_PASS'' := None)) =
     (\<lparr>transporter = None\<rparr>,
      [Log Warn ''Email service not configured - SMTP credentials missing'' []])"
    by blast
  with present missing built show ?thesis by simp
qed

theorem new_EmailService_present_counterexample:
  "(scenario_env(''SMTP_PASS'' \<mapsto> [])) ''SMTP_HOST'' \<noteq> None \<and>
   (scenario_env(''SMTP_PASS'' \<mapsto> [])) ''SMTP_USER'' \<noteq> None \<and>
   (scenario_env(''SMTP_PASS'' \<mapsto> [])) ''SMTP_PASS'' \<noteq> None \<and>
   transporter (fst (new_EmailService (scenario_env(''SMTP_PASS'' \<mapsto> [])))) = None"
  by (simp add: new_EmailService_def scenario_env_def js_and_def truthy_def)

text \<open>
  C8. When a transport client is built, its port is 587 when \<^verbatim>\<open>SMTP_PORT\<close> is unset
  (in general \<^verbatim>\<open>parseInt(SMTP_PORT || '587')\<close>), its \<^verbatim>\<open>secure\<close> flag is true exactly
  when \<^verbatim>\<open>SMTP_PORT\<close> is the string \<^verbatim>\<open>465\<close>, and its connection, socket and greeting
  timeouts are all \<open>EMAIL_TIMEOUT_MS = 5000\<close> ms.
\<close>

theorem new_EmailService_transport_options:
  assumes "transporter (fst (new_EmailService env)) = Some client"
  shows "(env ''SMTP_PORT'' = None \<longrightarrow> port client = Num 587) \<and>
         port client = parseInt (or_literal (env ''SMTP_PORT'') ''587'') \<and>
         secure client = (env ''SMTP_PORT'' = Some ''465'') \<and>
         connectionTimeout client = 5000 \<and>
         socketTimeout client = 5000 \<and>
         greetingTimeout client = 5000"
proof -
  have "client =
     \<lparr>host = env ''SMTP_HOST'',
      port = parseInt (or_literal (env ''SMTP_PORT'') ''587''),
      secure = (env ''SMTP_PORT'' = Some ''465''),
      auth_user = env ''SMTP_USER'',
      auth_pass = env ''SMTP_PASS'',
      connectionTimeout = EMAIL_TIMEOUT_MS,
      socketTimeout = EMAIL_TIMEOUT_MS,
      greetingTimeout = EMAIL_TIMEOUT_MS\<rparr>"
    using assms by (simp add: new_EmailService_def split: if_splits)
  then show ?thesis
    by (simp add: or_literal_def parseInt_587 EMAIL_TIMEOUT_MS_def)
qed

theorem new_EmailService_transport_options_witness:
  "transporter (fst (new_EmailService (scenario_env(''SMTP_PORT'' := None)))) =
     Some scenario_client \<and>
   (scenario_env(''SMTP_PORT'' := None)) ''SMTP_PORT'' = None \<and>
   port scenario_client = Num 587 \<and>
   secure scenario_client = False \<and>
   connectionTimeout scenario_client = 5000 \<and>
   socketTimeout scenario_client = 5000 \<and>
   greetingTimeout scenario_client = 5000"
proof -
  have built: "transporter (fst (new_EmailService (scenario_env(''SMTP_PORT'' := None)))) =
     Some scenario_client"
    by (simp add: new_EmailService_def scenario_env_def scenario_client_def js_and_def
        truthy_def or_literal_def parseInt_587 EMAIL_TIMEOUT_MS_def)
  have unset: "(scenario_env(''SMTP_PORT'' := None)) ''SMTP_PORT'' = None" by simp
  from new_EmailService_transport_options [OF built] unset built show ?thesis
    by simp
qed

section \<open>The sender of the outgoing message\<close>

text \<open>
  C6. Every message that \<open>sendEmail\<close> hands to the transport has as its
  \<^verbatim>\<open>from\<close> the value of \<^verbatim>\<open>SMTP_USER\<close> in the environment, whatever the request holds;
  the request only supplies \<^verbatim>\<open>to\<close>, \<^verbatim>\<open>subject\<close> and \<^verbatim>\<open>html\<close>. For a service built
  from that same environment this is the account the client authenticates as,
  and it is a non-empty string.
\<close>

theorem sendEmail_from_is_account:
  assumes "sendEmail env sendMail tie this options = Some run"
    and "mail \<in> set (sendMail_calls run)"
  shows "from mail = env ''SMTP_USER'' \<and>
         to mail = to options \<and> subject mail = subject options \<and> html mail = html options \<and>
         (\<forall>client. transporter (fst (new_EmailService env)) = Some client \<longrightarrow>
            from mail = auth_user client \<and> truthy (from mail))"
proof -
  have calls: "sendMail_calls run = [] \<or>
      sendMail_calls run = [\<lparr>to = to options, subject = subject options, html = html options,
                              from = env ''SMTP_USER''\<rparr>]"
  proof (cases "transporter this")
    case None
    with assms(1) show ?thesis by (auto simp: sendEmail_def)
  next
    case (Some client)
    from assms(1) Some obtain r where
      r: "try_block env (sendMail client) tie options = Some r"
      and run: "run = r \<or> (\<exists>e. run = catch_block options e r)"
      by (auto simp: sendEmail_def split: option.splits sum.splits)
    from r have "sendMail_calls r =
        [\<lparr>to = to options, subject = subject options, html = html options,
          from = env ''SMTP_USER''\<rparr>]"
      by (auto simp: try_block_def Let_def
          split: sendMail_result.splits option.splits settlement.splits prod.splits)
    with run show ?thesis by (auto simp: catch_block_def Let_def)
  qed
  with assms(2) have mail: "mail = \<lparr>to = to options, subject = subject options,
      html = html options, from = env ''SMTP_USER''\<rparr>"
    by auto
  have "from mail = auth_user client \<and> truthy (from mail)"
    if "transporter (fst (new_EmailService env)) = Some client" for client
    using that mail
    by (auto simp: new_EmailService_def configured_iff split: if_splits)
  with mail show ?thesis by auto
qed

theorem sendEmail_from_is_account_witness:
  "sendEmail scenario_env (stub_settles 120 (Fulfilled (Some ''<id@smtp.test>''))) True
       (fst (new_EmailService scenario_env)) scenario_options =
     Some \<lparr>returned = Inr \<lparr>success = True, error = None\<rparr>,
           logged = [Log Info ''Attempting to send email''
                       [(''to'', Some ''b@test''), (''subject'', Some ''Hello'')],
                     Log Info ''Email sent successfully''
                       [(''to'', Some ''b@test''), (''subject'', Some ''Hello''),
                        (''duration'', Some ''120ms''),
                        (''messageId'', Some ''<id@smtp.test>'')]],
           sendMail_calls = [\<lparr>to = ''b@test'', subject = ''Hello'', html = ''<p>Hi</p>'',
                              from = Some ''a@test''\<rparr>],
           elapsed = 120\<rparr> \<and>
   transporter (fst (new_EmailService scenario_env)) = Some scenario_client \<and>
   from \<lparr>to = ''b@test'', subject = ''Hello'', html = ''<p>Hi</p>'', from = Some ''a@test''\<rparr> =
     scenario_env ''SMTP_USER'' \<and>
   from \<lparr>to = ''b@test'', subject = ''Hello'', html = ''<p>Hi</p>'', from = Some ''a@test''\<rparr> =
     auth_user scenario_client"
proof -
  have race: "Promise_race True (Some (120, Fulfilled (Some ''<id@smtp.test>''))) timeoutPromise =
      Some (120, Fulfilled (Some ''<id@smtp.test>''))"
    by (simp add: timeoutPromise_def EMAIL_TIMEOUT_MS_def)
  have d: "decimal 120 = ''120''"
    by (simp add: decimal.simps digit_char_def)
  have run: "sendEmail scenario_env (stub_settles 120 (Fulfilled (Some ''<id@smtp.test>''))) True
       (fst (new_EmailService scenario_env)) scenario_options =
     Some \<lparr>returned = Inr \<lparr>success = True, error = None\<rparr>,
           logged = [Log Info ''Attempting to send email''
                       [(''to'', Some ''b@test''), (''subject'', Some ''Hello'')],
                     Log Info ''Email sent successfully''
                       [(''to'', Some ''b@test''), (''subject'', Some ''Hello''),
                        (''duration'', Some ''120ms''),
                        (''messageId'', Some ''<id@smtp.test>'')]],
           sendMail_calls = [\<lparr>to = ''b@test'', subject = ''Hello'', html = ''<p>Hi</p>'',
                              from = Some ''a@test''\<rparr>],
           elapsed = 120\<rparr>"
    by (simp add: sendEmail_def scenario_transporter try_block_def stub_settles_def race d
        scenario_options_def scenario_user)
  have "from \<lparr>to = ''b@test'', subject = ''Hello'', html = ''<p>Hi</p>'', from = Some ''a@test''\<rparr> =
          scenario_env ''SMTP_USER'' \<and>
        from \<lparr>to = ''b@test'', subject = ''Hello'', html = ''<p>Hi</p>'', from = Some ''a@test''\<rparr> =
          auth_user scenario_client"
    using sendEmail_from_is_account [OF run,
        of "\<lparr>to = ''b@test'', subject = ''Hello'', html = ''<p>Hi</p>'', from = Some ''a@test''\<rparr>"]
      scenario_transporter
    by (auto simp: scenario_user scenario_client_def)
  with run scenario_transporter show ?thesis
    by (simp add: scenario_user scenario_client_def)
qed

section \<open>The approval email\<close>

lemma split_on_first:
  "index0 (split_on sep s) = Some (takeWhile (\<lambda>c. c \<noteq> sep) s)"
  by (induction s) (auto simp: index0_def split: list.splits)

lemma loginUrl_cases:
  "loginUrl env =
     (if truthy (env ''FRONTEND_URL'') then or_literal (env ''FRONTEND_URL'') []
      else (case env ''REPLIT_DOMAINS'' of
              None \<Rightarrow> ''https://www.kosmospace.com''
            | Some domains \<Rightarrow>
                if takeWhile (\<lambda>c. c \<noteq> CHR '','') domains = []
                then ''https://www.kosmospace.com''
                else takeWhile (\<lambda>c. c \<noteq> CHR '','') domains))"
  by (auto simp: loginUrl_def js_or_def or_literal_def truthy_def split_on_first
      split: option.splits)

lemma html_after_firstName_end:
  "html_after_firstName = take 395 html_after_firstName @ ''<p><strong>Email:</strong> ''"
  by (simp add: html_after_firstName_def)

lemma html_after_email_ends:
  "html_after_email = ''</p>'' @ take 119 (drop 4 html_after_email) @ ''font-size: 14px;\">''"
  by (simp add: html_after_email_def)

lemma html_after_password_ends:
  "html_after_password = ''</code>'' @ take 295 (drop 7 html_after_password) @ ''<a href=\"''"
  by (simp add: html_after_password_def)

lemma html_after_loginUrl_start:
  "html_after_loginUrl = ''/login\" class=\"button\">'' @ drop 23 html_after_loginUrl"
  by (simp add: html_after_loginUrl_def)

lemma approval_html_email:
  "js_includes (approval_html firstName email password url)
     (''<p><strong>Email:</strong> '' @ email @ ''</p>'')"
proof -
  have "approval_html firstName email password url =
      (html_head @ firstName @ take 395 html_after_firstName) @
      (''<p><strong>Email:</strong> '' @ email @ ''</p>'') @
      (take 119 (drop 4 html_after_email) @ ''font-size: 14px;\">'' @
       password @ html_after_password @ url @ html_after_loginUrl)"
    unfolding approval_html_def
    by (subst html_after_firstName_end, subst html_after_email_ends) simp
  then show ?thesis by (simp only: js_includes_middle)
qed

lemma approval_html_password:
  "js_includes (approval_html firstName email password url)
     (''font-size: 14px;\">'' @ password @ ''</code>'')"
proof -
  have "approval_html firstName email password url =
      (html_head @ firstName @ html_after_firstName @ email @
       ''</p>'' @ take 119 (drop 4 html_after_email)) @
      (''font-size: 14px;\">'' @ password @ ''</code>'') @
      (take 295 (drop 7 html_after_password) @ ''<a href=\"'' @ url @ html_after_loginUrl)"
    unfolding approval_html_def
    by (subst html_after_email_ends, subst html_after_password_ends) simp
  then show ?thesis by (simp only: js_includes_middle)
qed

lemma approval_html_link:
  "js_includes (approval_html firstName email password url)
     (''<a href=\"'' @ url @ ''/login\" class=\"button\">'')"
proof -
  have "approval_html firstName email password url =
      (html_head @ firstName @ html_after_firstName @ email @ html_after_email @ password @
       ''</code>'' @ take 295 (drop 7 html_after_password)) @
      (''<a href=\"'' @ url @ ''/login\" class=\"button\">'') @
      drop 23 html_after_loginUrl"
    unfolding approval_html_def
    by (subst html_after_password_ends, subst html_after_loginUrl_start) simp
  then show ?thesis by (simp only: js_includes_middle)
qed

text \<open>
  C7. For every email, first name and password, \<open>sendBeauticianApprovalEmail\<close> is
  \<open>sendEmail\<close> applied to the recipient \<open>email\<close>, the fixed subject and an HTML body
  that contains \<open>email\<close> and \<open>password\<close> unchanged (in the credentials block) and the
  link \<^verbatim>\<open><a href="BASE/login" class="button">\<close>. \<open>BASE\<close> is \<^verbatim>\<open>FRONTEND_URL\<close> when that is
  set and non-empty; else the first comma-separated entry of \<^verbatim>\<open>REPLIT_DOMAINS\<close> when
  that entry is non-empty; else \<^verbatim>\<open>https://www.kosmospace.com\<close>.
\<close>

theorem sendBeauticianApprovalEmail_builds_and_delegates:
  "sendBeauticianApprovalEmail env sendMail tie this email firstName password =
     sendEmail env sendMail tie this
       \<lparr>to = email,
        subject = ''Welcome to Kosmospace - Your Application Has Been Approved!'',
        html = approval_html firstName email password (loginUrl env)\<rparr> \<and>
   js_includes (approval_html firstName email password (loginUrl env)) email \<and>
   js_includes (approval_html firstName email password (loginUrl env)) password \<and>
   js_includes (approval_html firstName email password (loginUrl env))
     (''<p><strong>Email:</strong> '' @ email @ ''</p>'') \<and>
   js_includes (approval_html firstName email password (loginUrl env))
     (''font-size: 14px;\">'' @ password @ ''</code>'') \<and>
   js_includes (approval_html firstName email password (loginUrl env))
     (''<a href=\"'' @ loginUrl env @ ''/login\" class=\"button\">'') \<and>
   (\<forall>url. env ''FRONTEND_URL'' = Some url \<and> url \<noteq> [] \<longrightarrow> loginUrl env = url) \<and>
   (\<forall>domains. \<not> truthy (env ''FRONTEND_URL'') \<and> env ''REPLIT_DOMAINS'' = Some domains \<and>
        takeWhile (\<lambda>c. c \<noteq> CHR '','') domains \<noteq> [] \<longrightarrow>
      loginUrl env = takeWhile (\<lambda>c. c \<noteq> CHR '','') domains) \<and>
   (\<not> truthy (env ''FRONTEND_URL'') \<and>
      (env ''REPLIT_DOMAINS'' = None \<or>
       (\<exists>domains. env ''REPLIT_DOMAINS'' = Some domains \<and>
          takeWhile (\<lambda>c. c \<noteq> CHR '','') domains = [])) \<longrightarrow>
      loginUrl env = ''https://www.kosmospace.com'')"
proof (intro conjI)
  show "sendBeauticianApprovalEmail env sendMail tie this email firstName password =
     sendEmail env sendMail tie this
       \<lparr>to = email,
        subject = ''Welcome to Kosmospace - Your Application Has Been Approved!'',
        html = approval_html firstName email password (loginUrl env)\<rparr>"
    by (simp add: sendBeauticianApprovalEmail_def approval_subject_def)
next
  have "approval_html firstName email password (loginUrl env) =
      (html_head @ firstName @ html_after_firstName) @ email @
      (html_after_email @ password @ html_after_password @ loginUrl env @ html_after_loginUrl)"
    by (simp add: approval_html_def)
  then show "js_includes (approval_html firstName email password (loginUrl env)) email"
    by (simp only: js_includes_middle)
next
  have "approval_html firstName email password (loginUrl env) =
      (html_head @ firstName @ html_after_firstName @ email @ html_after_email) @ password @
      (html_after_password @ loginUrl env @ html_after_loginUrl)"
    by (simp add: approval_html_def)
  then show "js_includes (approval_html firstName email password (loginUrl env)) password"
    by (simp only: js_includes_middle)
next
  show "js_includes (approval_html firstName email password (loginUrl env))
     (''<p><strong>Email:</strong> '' @ email @ ''</p>'')"
    by (rule approval_html_email)
next
  show "js_includes (approval_html firstName email password (loginUrl env))
     (''font-size: 14px;\">'' @ password @ ''</code>'')"
    by (rule approval_html_password)
next
  show "js_includes (approval_html firstName email password (loginUrl env))
     (''<a href=\"'' @ loginUrl env @ ''/login\" class=\"button\">'')"
    by (rule approval_html_link)
next
  show "\<forall>url. env ''FRONTEND_URL'' = Some url \<and> url \<noteq> [] \<longrightarrow> loginUrl env = url"
    by (simp add: loginUrl_cases truthy_def or_literal_def)
next
  show "\<forall>domains. \<not> truthy (env ''FRONTEND_URL'') \<and> env ''REPLIT_DOMAINS'' = Some domains \<and>
        takeWhile (\<lambda>c. c \<noteq> CHR '','') domains \<noteq> [] \<longrightarrow>
      loginUrl env = takeWhile (\<lambda>c. c \<noteq> CHR '','') domains"
    by (simp add: loginUrl_cases)
next
  show "\<not> truthy (env ''FRONTEND_URL'') \<and>
      (env ''REPLIT_DOMAINS'' = None \<or>
       (\<exists>domains. env ''REPLIT_DOMAINS'' = Some domains \<and>
          takeWhile (\<lambda>c. c \<noteq> CHR '','') domains = [])) \<longrightarrow>
      loginUrl env = ''https://www.kosmospace.com''"
    by (auto simp: loginUrl_cases)
qed

theorem sendBeauticianApprovalEmail_builds_and_delegates_witness:
  "loginUrl (scenario_env(''FRONTEND_URL'' \<mapsto> ''https://app.test'',
                           ''REPLIT_DOMAINS'' \<mapsto> ''a.dev,b.dev'')) = ''https://app.test'' \<and>
   loginUrl (scenario_env(''REPLIT_DOMAINS'' \<mapsto> ''a.dev,b.dev'')) = ''a.dev'' \<and>
   loginUrl scenario_env = ''https://www.kosmospace.com'' \<and>
   js_includes (approval_html ''Ada'' ''b@test'' ''s3cret'' (loginUrl scenario_env))
     (''<a href=\"'' @ ''https://www.kosmospace.com'' @ ''/login\" class=\"button\">'') \<and>
   sendBeauticianApprovalEmail scenario_env stub_never True
       (fst (new_EmailService scenario_env)) ''b@test'' ''Ada'' ''s3cret'' =
     sendEmail scenario_env stub_never True (fst (new_EmailService scenario_env))
       \<lparr>to = ''b@test'',
        subject = ''Welcome to Kosmospace - Your Application Has Been Approved!'',
        html = approval_html ''Ada'' ''b@test'' ''s3cret'' ''https://www.kosmospace.com''\<rparr>"
proof -
  have first: "loginUrl (scenario_env(''FRONTEND_URL'' \<mapsto> ''https://app.test'',
                           ''REPLIT_DOMAINS'' \<mapsto> ''a.dev,b.dev'')) = ''https://app.test''"
    using sendBeauticianApprovalEmail_builds_and_delegates
      [of "scenario_env(''FRONTEND_URL'' \<mapsto> ''https://app.test'',
                        ''REPLIT_DOMAINS'' \<mapsto> ''a.dev,b.dev'')"]
    by simp
  have second: "loginUrl (scenario_env(''REPLIT_DOMAINS'' \<mapsto> ''a.dev,b.dev'')) = ''a.dev''"
    using sendBeauticianApprovalEmail_builds_and_delegates
      [of "scenario_env(''REPLIT_DOMAINS'' \<mapsto> ''a.dev,b.dev'')"]
    by (simp add: scenario_env_def truthy_def)
  have third: "loginUrl scenario_env = ''https://www.kosmospace.com''"
    using sendBeauticianApprovalEmail_builds_and_delegates [of scenario_env]
    by (simp add: scenario_env_def truthy_def)
  have link: "js_includes (approval_html ''Ada'' ''b@test'' ''s3cret'' (loginUrl scenario_env))
     (''<a href=\"'' @ loginUrl scenario_env @ ''/login\" class=\"button\">'')"
    using sendBeauticianApprovalEmail_builds_and_delegates
      [of scenario_env _ _ _ "''b@test''" "''Ada''" "''s3cret''"]
    by blast
  have delegates: "sendBeauticianApprovalEmail scenario_env stub_never True
       (fst (new_EmailService scenario_env)) ''b@test'' ''Ada'' ''s3cret'' =
     sendEmail scenario_env stub_never True (fst (new_EmailService scenario_env))
       \<lparr>to = ''b@test'',
        subject = ''Welcome to Kosmospace - Your Application Has Been Approved!'',
        html = approval_html ''Ada'' ''b@test'' ''s3cret'' (loginUrl scenario_env)\<rparr>"
    using sendBeauticianApprovalEmail_builds_and_delegates
      [of scenario_env stub_never True "fst (new_EmailService scenario_env)"
          "''b@test''" "''Ada''" "''s3cret''"]
    by blast
  from first second third link delegates show ?thesis
    by (simp only: append.simps)
qed

text \<open>
  C10. The base of the login link is chosen by truthiness, not by presence:
  \<^item> \<^verbatim>\<open>FRONTEND_URL\<close> set to the empty string counts as unset, so the base is what
    the domain list and the default give;
  \<^item> with no usable \<^verbatim>\<open>FRONTEND_URL\<close>, a \<^verbatim>\<open>REPLIT_DOMAINS\<close> whose first
    comma-separated entry is empty gives the default \<^verbatim>\<open>https://www.kosmospace.com\<close>;
  \<^item> the link written into the body handed to \<open>sendEmail\<close> is the base followed by
    \<^verbatim>\<open>/login\<close>.
\<close>

theorem loginUrl_truthiness:
  "(env ''FRONTEND_URL'' = Some [] \<longrightarrow>
      loginUrl env = loginUrl (env(''FRONTEND_URL'' := None)) \<and>
      (\<forall>domains. env ''REPLIT_DOMAINS'' = Some domains \<and>
           takeWhile (\<lambda>c. c \<noteq> CHR '','') domains \<noteq> [] \<longrightarrow>
         loginUrl env = takeWhile (\<lambda>c. c \<noteq> CHR '','') domains)) \<and>
   (\<forall>domains. \<not> truthy (env ''FRONTEND_URL'') \<and> env ''REPLIT_DOMAINS'' = Some domains \<and>
        takeWhile (\<lambda>c. c \<noteq> CHR '','') domains = [] \<longrightarrow>
      loginUrl env = ''https://www.kosmospace.com'') \<and>
   (\<exists>before after.
      approval_html firstName email password (loginUrl env) =
        before @ ''<a href=\"'' @ loginUrl env @ ''/login'' @ ''\" class=\"button\">'' @ after) \<and>
   sendBeauticianApprovalEmail env sendMail tie this email firstName password =
     sendEmail env sendMail tie this
       \<lparr>to = email, subject = approval_subject,
        html = approval_html firstName email password (loginUrl env)\<rparr>"
proof (intro conjI)
  show "env ''FRONTEND_URL'' = Some [] \<longrightarrow>
      loginUrl env = loginUrl (env(''FRONTEND_URL'' := None)) \<and>
      (\<forall>domains. env ''REPLIT_DOMAINS'' = Some domains \<and>
           takeWhile (\<lambda>c. c \<noteq> CHR '','') domains \<noteq> [] \<longrightarrow>
         loginUrl env = takeWhile (\<lambda>c. c \<noteq> CHR '','') domains)"
    by (simp add: loginUrl_cases truthy_def)
next
  show "\<forall>domains. \<not> truthy (env ''FRONTEND_URL'') \<and> env ''REPLIT_DOMAINS'' = Some domains \<and>
        takeWhile (\<lambda>c. c \<noteq> CHR '','') domains = [] \<longrightarrow>
      loginUrl env = ''https://www.kosmospace.com''"
    by (simp add: loginUrl_cases)
next
  have "js_includes (approval_html firstName email password (loginUrl env))
     (''<a href=\"'' @ loginUrl env @ ''/login\" class=\"button\">'')"
    by (rule approval_html_link)
  then obtain before after where
    "approval_html firstName email password (loginUrl env) =
       before @ (''<a href=\"'' @ loginUrl env @ ''/login\" class=\"button\">'') @ after"
    unfolding js_includes_iff by blast
  then have "approval_html firstName email password (loginUrl env) =
       before @ ''<a href=\"'' @ loginUrl env @ ''/login'' @ ''\" class=\"button\">'' @ after"
    by simp
  then show "\<exists>before after.
      approval_html firstName email password (loginUrl env) =
        before @ ''<a href=\"'' @ loginUrl env @ ''/login'' @ ''\" class=\"button\">'' @ after"
    by blast
next
  show "sendBeauticianApprovalEmail env sendMail tie this email firstName password =
     sendEmail env sendMail tie this
       \<lparr>to = email, subject = approval_subject,
        html = approval_html firstName email password (loginUrl env)\<rparr>"
    by (simp add: sendBeauticianApprovalEmail_def)
qed

theorem loginUrl_truthiness_witness:
  "(scenario_env(''FRONTEND_URL'' \<mapsto> [], ''REPLIT_DOMAINS'' \<mapsto> ''a.dev,b.dev''))
      ''FRONTEND_URL'' = Some [] \<and>
   loginUrl (scenario_env(''FRONTEND_URL'' \<mapsto> [], ''REPLIT_DOMAINS'' \<mapsto> ''a.dev,b.dev'')) =
     ''a.dev'' \<and>
   takeWhile (\<lambda>c. c \<noteq> CHR '','') '',b.dev'' = [] \<and>
   loginUrl (scenario_env(''FRONTEND_URL'' \<mapsto> [], ''REPLIT_DOMAINS'' \<mapsto> '',b.dev'')) =
     ''https://www.kosmospace.com''"
proof -
  have empty: "(scenario_env(''FRONTEND_URL'' \<mapsto> [], ''REPLIT_DOMAINS'' \<mapsto> ''a.dev,b.dev''))
      ''FRONTEND_URL'' = Some []"
    by simp
  have domains: "(scenario_env(''FRONTEND_URL'' \<mapsto> [], ''REPLIT_DOMAINS'' \<mapsto> ''a.dev,b.dev''))
      ''REPLIT_DOMAINS'' = Some ''a.dev,b.dev''"
    by simp
  have head: "takeWhile (\<lambda>c. c \<noteq> CHR '','') ''a.dev,b.dev'' = ''a.dev''" by simp
  then have filled: "takeWhile (\<lambda>c. c \<noteq> CHR '','') ''a.dev,b.dev'' \<noteq> []" by simp
  have "\<forall>domains.
      (scenario_env(''FRONTEND_URL'' \<mapsto> [], ''REPLIT_DOMAINS'' \<mapsto> ''a.dev,b.dev''))
        ''REPLIT_DOMAINS'' = Some domains \<and>
      takeWhile (\<lambda>c. c \<noteq> CHR '','') domains \<noteq> [] \<longrightarrow>
      loginUrl (scenario_env(''FRONTEND_URL'' \<mapsto> [], ''REPLIT_DOMAINS'' \<mapsto> ''a.dev,b.dev'')) =
        takeWhile (\<lambda>c. c \<noteq> CHR '','') domains"
    using loginUrl_truthiness
      [where env = "scenario_env(''FRONTEND_URL'' \<mapsto> [],
                                 ''REPLIT_DOMAINS'' \<mapsto> ''a.dev,b.dev'')",
       THEN conjunct1] empty
    by blast
  with domains filled
  have "loginUrl (scenario_env(''FRONTEND_URL'' \<mapsto> [],
                  ''REPLIT_DOMAINS'' \<mapsto> ''a.dev,b.dev'')) =
        takeWhile (\<lambda>c. c \<noteq> CHR '','') ''a.dev,b.dev''"
    by blast
  with head have list: "loginUrl (scenario_env(''FRONTEND_URL'' \<mapsto> [],
                  ''REPLIT_DOMAINS'' \<mapsto> ''a.dev,b.dev'')) = ''a.dev''"
    by simp
  have entry: "takeWhile (\<lambda>c. c \<noteq> CHR '','') '',b.dev'' = []" by simp
  have fallback: "loginUrl (scenario_env(''FRONTEND_URL'' \<mapsto> [],
                  ''REPLIT_DOMAINS'' \<mapsto> '',b.dev'')) = ''https://www.kosmospace.com''"
    using loginUrl_truthiness
      [where env = "scenario_env(''FRONTEND_URL'' \<mapsto> [],
                                 ''REPLIT_DOMAINS'' \<mapsto> '',b.dev'')",
       THEN conjunct2, THEN conjunct1]
    by (simp add: truthy_def)
  from empty list entry fallback show ?thesis by simp
qed

end
